theory Spec2Isabelle
  imports Main "HOL-Library.Char_ord" "HOL-Library.List_Lexorder" "HOL-Library.Multiset"
begin

section \<open>Data model\<close>

text \<open>
  A shallow embedding of smithy's request handling: the reference collector, the
  default-branch lookup, the tree, log, commit and patch views, and the route table with
  its dispatcher.

  Go's \<open>error\<close> values: \<open>io.EOF\<close>, which the iterators of go-git return at their end, and
  any other error, kept by its message.
\<close>

datatype error = EOF | Err string

text \<open>
  A run-time panic of a handler. gin's recovery middleware turns it into a bare status 500;
  the model keeps it apart from the 500 page a handler renders itself.
\<close>

datatype panic = NilPointerDereference | IndexOutOfRange

text \<open>
  An iterator of go-git (\<open>storer.ReferenceIter\<close>, \<open>object.CommitIter\<close>) is the finite
  sequence of results its \<open>Next\<close> gives, \<open>Inr x\<close> for \<open>(x, nil)\<close> and \<open>Inl e\<close> for \<open>(nil, e)\<close>;
  past the end of the sequence \<open>Next\<close> gives \<open>io.EOF\<close>.
\<close>

type_synonym 'a iter = "(error + 'a) list"

definition Next :: "'a iter \<Rightarrow> (error + 'a) \<times> 'a iter" where
  "Next it = (case it of [] \<Rightarrow> (Inl EOF, []) | r # rest \<Rightarrow> (r, rest))"

text \<open>
  \<open>plumbing.Hash\<close> is kept by its \<open>String()\<close>, the 40 hexadecimal digits; \<open>time.Time\<close> by its
  seconds since the epoch.
\<close>

type_synonym Hash = string
type_synonym Time = int

record Reference =
  ref_Name :: string
  ref_Hash :: Hash

record Signature =
  sig_Name :: string
  sig_Email :: string
  sig_When :: Time

record object_Commit =
  commit_Hash :: Hash
  commit_Author :: Signature
  commit_Committer :: Signature
  commit_Message :: string
  commit_TreeHash :: Hash
  commit_ParentHashes :: "Hash list"

text \<open>The view's own \<open>Commit\<close> struct: a commit with its subject and short hash.\<close>

record Commit =
  Commit_Commit :: object_Commit
  Commit_Subject :: string
  Commit_ShortHash :: string

text \<open>
  \<open>filemode.FileMode\<close> of go-git and its \<open>IsFile\<close>: regular, deprecated, executable and
  symbolic-link entries are files; directories, submodules and the empty mode are not.
\<close>

datatype FileMode = Empty | Dir | Regular | Deprecated | Executable | Symlink | Submodule

fun IsFile :: "FileMode \<Rightarrow> bool" where
  "IsFile Regular = True"
| "IsFile Deprecated = True"
| "IsFile Executable = True"
| "IsFile Symlink = True"
| "IsFile _ = False"

record TreeEntry =
  entry_Name :: string
  entry_Mode :: FileMode
  entry_Hash :: Hash

record Tree =
  tree_Hash :: Hash
  tree_Entries :: "TreeEntry list"

record File =
  file_Name :: string
  file_Mode :: FileMode
  file_Hash :: Hash

text \<open>
  A change between two trees: the entry on each side with its path, a side being absent
  for an insertion or a deletion. An \<open>object.Patch\<close> and an \<open>object.FileStats\<close> are kept by
  what their \<open>String()\<close> prints.
\<close>

type_synonym ChangeEntry = "string \<times> TreeEntry"

record Change =
  change_From :: "ChangeEntry option"
  change_To :: "ChangeEntry option"

type_synonym Patch = string
type_synonym FileStats = string

datatype LogOrder =
  LogOrderDefault | LogOrderDFS | LogOrderDFSPost | LogOrderBSF | LogOrderCommitterTime

record LogOptions =
  log_From :: Hash
  log_Order :: LogOrder

section \<open>The object store and the libraries\<close>

text \<open>
  A \<open>git.Repository\<close> of go-git is taken as a parameter: the operations the handlers call
  on it and on the objects it hands out, each with the error it may return. Nothing is
  assumed about them.
  \<^item> \<open>ResolveRevision\<close>, \<open>CommitObject\<close>, \<open>Log\<close>, \<open>Branches\<close>, \<open>Tags\<close>: the methods of the
    repository; \<open>TreeObject\<close> is the store's \<open>GetTree\<close>;
  \<^item> \<open>FindEntry\<close>, \<open>SubTree\<close> (\<open>tree.Tree(path)\<close>), \<open>TreeFile\<close> (\<open>tree.File(path)\<close>) and
    \<open>Contents\<close> (\<open>file.Contents()\<close>): the methods of a tree and of a file;
  \<^item> \<open>CommitPatch from to\<close> is \<open>from.Patch(to)\<close> printed, \<open>CommitStats c\<close> is \<open>c.Stats()\<close>
    printed and \<open>ChangePatch\<close> is \<open>change.Patch()\<close>;
  \<^item> \<open>TreeDepth\<close> is a bound on how deep the directories of the store nest (a store is
    finite and its trees cannot contain themselves);
  \<^item> \<open>DiffTrees from to\<close> is \<open>object.DiffTree\<close> for a first tree that is not nil (a nil
    second tree is \<open>None\<close>).
\<close>

record Repository =
  ResolveRevision :: "string \<Rightarrow> error + Hash"
  CommitObject :: "Hash \<Rightarrow> error + object_Commit"
  TreeObject :: "Hash \<Rightarrow> error + Tree"
  Log :: "LogOptions \<Rightarrow> error + object_Commit iter"
  Branches :: "error + Reference iter"
  Tags :: "error + Reference iter"
  FindEntry :: "Tree \<Rightarrow> string \<Rightarrow> error + TreeEntry"
  SubTree :: "Tree \<Rightarrow> string \<Rightarrow> error + Tree"
  TreeFile :: "Tree \<Rightarrow> string \<Rightarrow> error + File"
  Contents :: "File \<Rightarrow> error + string"
  CommitPatch :: "object_Commit \<Rightarrow> object_Commit \<Rightarrow> error + Patch"
  CommitStats :: "object_Commit \<Rightarrow> error + FileStats"
  TreeDepth :: nat
  DiffTrees :: "Tree \<Rightarrow> Tree option \<Rightarrow> error + Change list"
  ChangePatch :: "Change \<Rightarrow> error + Patch"


text \<open>
  Modelled from the spec: the walk of a tree that the difference from an empty tree
  makes, go-git's code for it not being part of the repository. An entry that is not a
  directory is found under its path; a directory is read from the store and walked in
  turn, and the walk fails when a directory cannot be read. The walk goes \<open>fuel\<close>
  directories deep and fails below that.
\<close>

fun tree_walk :: "nat \<Rightarrow> Repository \<Rightarrow> string \<Rightarrow> TreeEntry list \<Rightarrow> error + ChangeEntry list" where
  "tree_walk fuel repo prefix [] = Inr []"
| "tree_walk fuel repo prefix (e # es) =
     (case (if entry_Mode e = Dir then
              (case fuel of
                 0 \<Rightarrow> Inl (Err ''tree nested too deep'')
               | Suc deeper \<Rightarrow>
                   (case TreeObject repo (entry_Hash e) of
                      Inl err \<Rightarrow> Inl err
                    | Inr sub \<Rightarrow>
                        tree_walk deeper repo (prefix @ entry_Name e @ ''/'') (tree_Entries sub)))
            else Inr [(prefix @ entry_Name e, e)]) of
        Inl err \<Rightarrow> Inl err
      | Inr found \<Rightarrow>
          (case tree_walk fuel repo prefix es of
             Inl err \<Rightarrow> Inl err
           | Inr others \<Rightarrow> Inr (found @ others)))"

text \<open>An insertion: a change with no entry on the first side.\<close>

definition insertion :: "ChangeEntry \<Rightarrow> Change" where
  "insertion to = \<lparr>change_From = None, change_To = Some to\<rparr>"

text \<open>
  Modelled from the spec: \<open>object.DiffTree\<close> is a function of go-git, whose code is not
  part of the repository. Of a first tree that is nil the spec says that "the change set
  is computed against an empty tree (i.e., every file appears as an addition)": the
  difference from the nil tree to a tree is one insertion for every file the walk of the
  tree finds, and it fails when the walk fails. The walk goes \<open>TreeDepth\<close> directories
  deep; were that bound too small for a store, this difference would fail where go-git's
  goes on. With a first tree that is given, the difference is the parameter \<open>DiffTrees\<close>.
\<close>

definition DiffTree :: "Repository \<Rightarrow> Tree option \<Rightarrow> Tree option \<Rightarrow> error + Change list" where
  "DiffTree repo from to =
     (case from of
        Some a \<Rightarrow> DiffTrees repo a to
      | None \<Rightarrow>
          (case to of
             None \<Rightarrow> Inr []
           | Some b \<Rightarrow>
               (case tree_walk (TreeDepth repo) repo [] (tree_Entries b) of
                  Inl err \<Rightarrow> Inl err
                | Inr files \<Rightarrow> Inr (map insertion files))))"

text \<open>
  The methods of \<open>object.Commit\<close> that go-git defines from the fields and the store:
  \<open>NumParents\<close> counts the parent hashes, \<open>Parent(i)\<close> fails with "commit parent not found"
  when there is no \<open>i\<close>-th parent hash and loads that commit otherwise, and \<open>Tree()\<close> loads
  the tree of the commit's tree hash.
\<close>

definition NumParents :: "object_Commit \<Rightarrow> nat" where
  "NumParents c = length (commit_ParentHashes c)"

definition commit_Parent :: "Repository \<Rightarrow> object_Commit \<Rightarrow> nat \<Rightarrow> error + object_Commit" where
  "commit_Parent repo c i =
     (if length (commit_ParentHashes c) = 0 \<or> i + 1 > length (commit_ParentHashes c)
      then Inl (Err ''commit parent not found'')
      else CommitObject repo (commit_ParentHashes c ! i))"

definition commit_Tree :: "Repository \<Rightarrow> object_Commit \<Rightarrow> error + Tree" where
  "commit_Tree repo c = TreeObject repo (commit_TreeHash c)"

text \<open>
  The other libraries, as parameters: \<open>plumbing.NewHash\<close>, \<open>filepath.Dir\<close>, chroma's
  \<open>lexers.Match\<close> (a lexer is kept by its name) and its tokenise-and-format step,
  \<open>time.Time.Format\<close> with its layout, and the unified encoder of this repository
  (\<open>NewUnifiedEncoder(buf, DefaultContextLines).Encode\<close>, whose file is not part of the
  sources at hand): what it wrote to the buffer, and its error. \<open>sort_ties\<close> is what
  \<open>sort.Sort\<close>, which is not stable, leaves unspecified: the order among elements that
  compare equal (see \<open>sort_Sort\<close> below).
\<close>

record lib =
  NewHash :: "string \<Rightarrow> Hash"
  filepath_Dir :: "string \<Rightarrow> string"
  lexers_Match :: "string \<Rightarrow> string option"
  chroma_Format :: "string \<Rightarrow> string \<Rightarrow> error + string"
  time_Format :: "string \<Rightarrow> Time \<Rightarrow> string"
  UnifiedEncoder_Encode :: "Patch \<Rightarrow> string \<times> error option"
  sort_ties :: "Reference list \<Rightarrow> Reference list"

text \<open>
  \<open>SmithyConfig\<close> is declared in a file that is not part of the sources at hand; the
  handlers read its site fields and call \<open>FindRepo\<close>, taken as a parameter.
\<close>

record RepositoryWithName =
  repo_Name :: string
  repo_Repository :: Repository

record SmithyConfig =
  cfg_Title :: string
  cfg_Description :: string
  cfg_Host :: string
  FindRepo :: "string \<Rightarrow> RepositoryWithName option"

section \<open>Responses\<close>

text \<open>
  The values a handler puts into a template context (\<open>gin.H\<close>, a map from keys to values),
  and what a handler answers: a rendered template with its status and context
  (\<open>ctx.HTML\<close>), a plain text (\<open>ctx.String\<close>), a redirect, or a panic.
\<close>

datatype ctx_value =
    VString string
  | VHTML string
  | VEntries "TreeEntry list"
  | VEntry TreeEntry
  | VCommits "Commit list"
  | VCommit object_Commit
  | VSite string string string

type_synonym H = "string \<rightharpoonup> ctx_value"

datatype response =
    HTML nat string H
  | Text nat string
  | Redirect nat string
  | Panic panic

definition StatusOK :: nat where "StatusOK = 200"
definition StatusNotFound :: nat where "StatusNotFound = 404"
definition StatusInternalServerError :: nat where "StatusInternalServerError = 500"
definition StatusPermanentRedirect :: nat where "StatusPermanentRedirect = 308"

definition PAGE_SIZE :: nat where "PAGE_SIZE = 100"

definition LF :: char where "LF = CHR 0x0A"

definition makeTemplateContext :: "SmithyConfig \<Rightarrow> H \<Rightarrow> H" where
  "makeTemplateContext config extra =
     [''Site'' \<mapsto> VSite (cfg_Title config) (cfg_Description config) (cfg_Host config)] ++ extra"

definition Http404 :: "SmithyConfig \<Rightarrow> response" where
  "Http404 smithyConfig =
     HTML StatusNotFound ''404.html'' (makeTemplateContext smithyConfig Map.empty)"

definition Http500 :: "SmithyConfig \<Rightarrow> response" where
  "Http500 smithyConfig =
     HTML StatusInternalServerError ''500.html'' (makeTemplateContext smithyConfig Map.empty)"

section \<open>Reference collector\<close>

text \<open>
  The loop of \<open>ReferenceCollector\<close>: \<open>io.EOF\<close> leaves the loop, any other error returns
  the references read so far with the error, a reference is appended. \<open>sort.Sort\<close> with
  \<open>ReferenceByName.Less\<close> (\<open>strings.Compare\<close> of the names, bytewise) is a sort by the name
  under the lexicographic order of strings. \<open>sort.Sort\<close> is not stable: it promises no
  order among references of the same name. So \<open>sort_Sort\<close> is a stable sort by name of a
  rearrangement of the slice, the rearrangement \<open>sort_ties\<close> being a parameter (one that
  does not keep the elements is passed over): every sorted arrangement of the slice is
  \<open>sort_Sort\<close> for some \<open>sort_ties\<close>, and only the sorted arrangements are.
\<close>

definition sort_Sort :: "lib \<Rightarrow> Reference list \<Rightarrow> Reference list" where
  "sort_Sort L refs =
     sort_key ref_Name (if mset (sort_ties L refs) = mset refs then sort_ties L refs else refs)"

fun ReferenceCollector_loop ::
  "Reference iter \<Rightarrow> Reference list \<Rightarrow> Reference list \<times> error option" where
  "ReferenceCollector_loop [] refs = (refs, None)"
| "ReferenceCollector_loop (Inl EOF # rest) refs = (refs, None)"
| "ReferenceCollector_loop (Inl err # rest) refs = (refs, Some err)"
| "ReferenceCollector_loop (Inr b # rest) refs = ReferenceCollector_loop rest (refs @ [b])"

definition ReferenceCollector ::
  "lib \<Rightarrow> Reference iter \<Rightarrow> Reference list \<times> error option" where
  "ReferenceCollector L it =
     (case ReferenceCollector_loop it [] of
        (refs, Some err) \<Rightarrow> (refs, Some err)
      | (refs, None) \<Rightarrow> (sort_Sort L refs, None))"

definition ListBranches :: "lib \<Rightarrow> Repository \<Rightarrow> Reference list \<times> error option" where
  "ListBranches L r =
     (case Branches r of Inl err \<Rightarrow> ([], Some err) | Inr it \<Rightarrow> ReferenceCollector L it)"

definition ListTags :: "lib \<Rightarrow> Repository \<Rightarrow> Reference list \<times> error option" where
  "ListTags L r =
     (case Tags r of Inl err \<Rightarrow> ([], Some err) | Inr it \<Rightarrow> ReferenceCollector L it)"

section \<open>Default branch\<close>

text \<open>
  \<open>findMainBranch\<close> tries the candidates in order and returns the first that resolves,
  with its revision. Each failed resolution is recorded with \<open>ctx.Error\<close>: the first
  component of the result is the list of errors recorded, the second what is returned.
\<close>

fun findMainBranch_loop ::
  "Repository \<Rightarrow> string list \<Rightarrow> error list \<Rightarrow> error list \<times> (error + string \<times> Hash)" where
  "findMainBranch_loop repo [] errs =
     (errs, Inl (Err ''failed to find a 'main' or 'master' branch''))"
| "findMainBranch_loop repo (candidate # rest) errs =
     (case ResolveRevision repo candidate of
        Inr revision \<Rightarrow> (errs, Inr (candidate, revision))
      | Inl err \<Rightarrow> findMainBranch_loop repo rest (errs @ [err]))"

definition findMainBranch :: "Repository \<Rightarrow> error list \<times> (error + string \<times> Hash)" where
  "findMainBranch repo = findMainBranch_loop repo [''main'', ''master''] []"

section \<open>Tree view\<close>

text \<open>
  \<open>RenderSyntaxHighlighting\<close>: the contents of the file, highlighted when a lexer matches
  the file name and formatting succeeds, and in a \<open>pre\<close> element otherwise. The error of
  \<open>Tokenise\<close> is overwritten by that of \<open>Format\<close> in the source; \<open>chroma_Format\<close> stands for
  both steps.
\<close>

definition RenderSyntaxHighlighting ::
  "lib \<Rightarrow> Repository \<Rightarrow> File \<Rightarrow> string \<times> error option" where
  "RenderSyntaxHighlighting L repo file =
     (case Contents repo file of
        Inl err \<Rightarrow> ('''', Some err)
      | Inr contents \<Rightarrow>
          (case lexers_Match L (file_Name file) of
             None \<Rightarrow> (''<pre>'' @ contents @ ''</pre>'', None)
           | Some lexer \<Rightarrow>
               (case chroma_Format L lexer contents of
                  Inl err \<Rightarrow> (''<pre>'' @ contents @ ''</pre>'', None)
                | Inr buf \<Rightarrow> (buf, None))))"

text \<open>
  \<open>TreeView\<close>. \<open>urlParts[0]\<close> panics on an empty list. The reference is the second url
  part, or the name \<open>findMainBranch\<close> returns; the path is the third url part, or empty.
  Every failure on the way answers with the 404 page.
\<close>

definition TreeView :: "lib \<Rightarrow> SmithyConfig \<Rightarrow> string list \<Rightarrow> response" where
  "TreeView L smithyConfig urlParts =
    (case urlParts of
       [] \<Rightarrow> Panic IndexOutOfRange
     | repoName # _ \<Rightarrow>
    (case FindRepo smithyConfig repoName of
       None \<Rightarrow> Http404 smithyConfig
     | Some repo \<Rightarrow>
    (case (if length urlParts > 1 then Inr (urlParts ! 1)
           else (case snd (findMainBranch (repo_Repository repo)) of
                   Inl err \<Rightarrow> Inl err
                 | Inr (name, _) \<Rightarrow> Inr name)) of
       Inl err \<Rightarrow> Http404 smithyConfig
     | Inr refNameString \<Rightarrow>
    (case ResolveRevision (repo_Repository repo) refNameString of
       Inl err \<Rightarrow> Http404 smithyConfig
     | Inr revision \<Rightarrow>
    (let treePath = (if length urlParts > 2 then urlParts ! 2 else '''');
         parentPath = filepath_Dir L treePath
     in
    (case CommitObject (repo_Repository repo) revision of
       Inl err \<Rightarrow> Http404 smithyConfig
     | Inr commitObj \<Rightarrow>
    (case commit_Tree (repo_Repository repo) commitObj of
       Inl err \<Rightarrow> Http404 smithyConfig
     | Inr tree \<Rightarrow>
    if treePath = '''' then
      HTML StatusOK ''tree.html'' (makeTemplateContext smithyConfig
        [''RepoName'' \<mapsto> VString repoName,
         ''RefName'' \<mapsto> VString refNameString,
         ''Files'' \<mapsto> VEntries (tree_Entries tree),
         ''Path'' \<mapsto> VString treePath])
    else
    (case FindEntry (repo_Repository repo) tree treePath of
       Inl err \<Rightarrow> Http404 smithyConfig
     | Inr out \<Rightarrow>
    if \<not> IsFile (entry_Mode out) then
      (case SubTree (repo_Repository repo) tree treePath of
         Inl err \<Rightarrow> Http404 smithyConfig
       | Inr subTree \<Rightarrow>
           HTML StatusOK ''tree.html'' (makeTemplateContext smithyConfig
             [''RepoName'' \<mapsto> VString repoName,
              ''ParentPath'' \<mapsto> VString parentPath,
              ''RefName'' \<mapsto> VString refNameString,
              ''SubTree'' \<mapsto> VString (entry_Name out),
              ''Path'' \<mapsto> VString treePath,
              ''Files'' \<mapsto> VEntries (tree_Entries subTree)]))
    else
    (case TreeFile (repo_Repository repo) tree treePath of
       Inl err \<Rightarrow> Http404 smithyConfig
     | Inr file \<Rightarrow>
    (let syntaxHighlighted = fst (RenderSyntaxHighlighting L (repo_Repository repo) file)
     in
    (case Contents (repo_Repository repo) file of
       Inl err \<Rightarrow> Http404 smithyConfig
     | Inr contents \<Rightarrow>
      HTML StatusOK ''blob.html'' (makeTemplateContext smithyConfig
        [''RepoName'' \<mapsto> VString repoName,
         ''RefName'' \<mapsto> VString refNameString,
         ''File'' \<mapsto> VEntry out,
         ''ParentPath'' \<mapsto> VString parentPath,
         ''Path'' \<mapsto> VString treePath,
         ''Contents'' \<mapsto> VString contents,
         ''ContentsHighlighted'' \<mapsto> VHTML syntaxHighlighted]))))))))))))"

section \<open>Log view\<close>

text \<open>
  \<open>strings.Split\<close> at a one-byte separator: the pieces between the separators, at least
  one piece.
\<close>

fun strings_Split :: "string \<Rightarrow> char \<Rightarrow> string list" where
  "strings_Split [] sep = [[]]"
| "strings_Split (c # cs) sep =
     (if c = sep then [] # strings_Split cs sep
      else (case strings_Split cs sep of
              [] \<Rightarrow> [[c]]
            | piece # pieces \<Rightarrow> (c # piece) # pieces))"

text \<open>
  The page loop of \<open>LogView\<close>, \<open>for i := 1; i <= PAGE_SIZE; i++\<close>. Only \<open>io.EOF\<close> leaves
  the loop early. After any other error the commit is nil and reading \<open>commit.Message\<close>
  panics. \<open>lines[0]\<close> is the head of a list that is never empty, and \<open>[:8]\<close> the first
  eight of a hash's forty digits.
\<close>

function LogView_loop ::
  "nat \<Rightarrow> object_Commit iter \<Rightarrow> Commit list \<Rightarrow> panic + Commit list" where
  "LogView_loop i cIter commits =
     (if i \<le> PAGE_SIZE then
        (case Next cIter of
           (Inl EOF, _) \<Rightarrow> Inr commits
         | (Inl (Err e), _) \<Rightarrow> Inl NilPointerDereference
         | (Inr commit, cIter') \<Rightarrow>
             (let lines = strings_Split (commit_Message commit) LF;
                  c = \<lparr>Commit_Commit = commit,
                       Commit_Subject = hd lines,
                       Commit_ShortHash = take 8 (commit_Hash commit)\<rparr>
              in LogView_loop (i + 1) cIter' (commits @ [c])))
      else Inr commits)"
  by pat_completeness auto
termination
  by (relation "measure (\<lambda>(i, cIter, commits). PAGE_SIZE + 1 - i)") auto

definition LogView :: "lib \<Rightarrow> SmithyConfig \<Rightarrow> string list \<Rightarrow> response" where
  "LogView L smithyConfig urlParts =
    (case urlParts of
       [] \<Rightarrow> Panic IndexOutOfRange
     | repoName # rest \<Rightarrow>
    (case FindRepo smithyConfig repoName of
       None \<Rightarrow> Http404 smithyConfig
     | Some repo \<Rightarrow>
    (case rest of
       [] \<Rightarrow> Panic IndexOutOfRange
     | refNameString # _ \<Rightarrow>
    (case ResolveRevision (repo_Repository repo) refNameString of
       Inl err \<Rightarrow> Http404 smithyConfig
     | Inr revision \<Rightarrow>
    (case Log (repo_Repository repo)
            \<lparr>log_From = revision, log_Order = LogOrderCommitterTime\<rparr> of
       Inl err \<Rightarrow> Http500 smithyConfig
     | Inr cIter \<Rightarrow>
    (case LogView_loop 1 cIter [] of
       Inl p \<Rightarrow> Panic p
     | Inr commits \<Rightarrow>
      HTML StatusOK ''log.html'' (makeTemplateContext smithyConfig
        [''RepoName'' \<mapsto> VString repoName,
         ''RefName'' \<mapsto> VString refNameString,
         ''Commits'' \<mapsto> VCommits commits])))))))"

text \<open>
  \<open>LogViewDefault\<close> redirects to the log of the default branch; \<open>requestURI\<close> is the
  request's \<open>RequestURI\<close>.
\<close>

definition LogViewDefault :: "string \<Rightarrow> SmithyConfig \<Rightarrow> string list \<Rightarrow> response" where
  "LogViewDefault requestURI smithyConfig urlParts =
    (case urlParts of
       [] \<Rightarrow> Panic IndexOutOfRange
     | repoName # _ \<Rightarrow>
    (case FindRepo smithyConfig repoName of
       None \<Rightarrow> Http404 smithyConfig
     | Some repo \<Rightarrow>
    (case snd (findMainBranch (repo_Repository repo)) of
       Inl err \<Rightarrow> Http404 smithyConfig
     | Inr (mainBranchName, _) \<Rightarrow>
        Redirect StatusPermanentRedirect (requestURI @ ''/'' @ mainBranchName))))"

section \<open>Changes, commit view and patch view\<close>

text \<open>
  \<open>GetChanges\<close>: the parent tree stays nil when \<open>commit.Parent(0)\<close> fails; a parent whose
  tree cannot be read and a commit whose tree cannot be read are errors.
\<close>

definition GetChanges :: "Repository \<Rightarrow> object_Commit \<Rightarrow> error + Change list" where
  "GetChanges repo commit =
    (case (case commit_Parent repo commit 0 of
             Inr parent \<Rightarrow>
               (case commit_Tree repo parent of
                  Inl err \<Rightarrow> Inl err
                | Inr t \<Rightarrow> Inr (Some t))
           | Inl err \<Rightarrow> Inr None) of
       Inl err \<Rightarrow> Inl err
     | Inr parentTree \<Rightarrow>
    (case commit_Tree repo commit of
       Inl err \<Rightarrow> Inl err
     | Inr currentTree \<Rightarrow> DiffTree repo parentTree (Some currentTree)))"

text \<open>\<open>strings.Join\<close>.\<close>

fun strings_Join :: "string list \<Rightarrow> string \<Rightarrow> string" where
  "strings_Join [] sep = []"
| "strings_Join [x] sep = x"
| "strings_Join (x # y # ys) sep = x @ sep @ strings_Join (y # ys) sep"

text \<open>\<open>PatchHTML\<close> prints the encoder's error and returns the buffer whatever it is.\<close>

definition PatchHTML :: "lib \<Rightarrow> Patch \<Rightarrow> string" where
  "PatchHTML L p = fst (UnifiedEncoder_Encode L p)"

fun FormatChanges_loop ::
  "lib \<Rightarrow> Repository \<Rightarrow> Change list \<Rightarrow> string list \<Rightarrow> error + string" where
  "FormatChanges_loop L repo [] s = Inr (strings_Join s [LF, LF, LF, LF])"
| "FormatChanges_loop L repo (change # rest) s =
     (case ChangePatch repo change of
        Inl err \<Rightarrow> Inl err
      | Inr patch \<Rightarrow> FormatChanges_loop L repo rest (s @ [PatchHTML L patch]))"

definition FormatChanges :: "lib \<Rightarrow> Repository \<Rightarrow> Change list \<Rightarrow> error + string" where
  "FormatChanges L repo changes = FormatChanges_loop L repo changes []"

definition commitFormatDate :: string where
  "commitFormatDate = ''Mon, 2 Jan 2006 15:04:05 -0700''"

definition PatchView :: "lib \<Rightarrow> SmithyConfig \<Rightarrow> string list \<Rightarrow> response" where
  "PatchView L smithyConfig urlParts =
    (case urlParts of
       [] \<Rightarrow> Panic IndexOutOfRange
     | repoName # rest \<Rightarrow>
    (case FindRepo smithyConfig repoName of
       None \<Rightarrow> Http404 smithyConfig
     | Some repo \<Rightarrow>
    (case rest of
       [] \<Rightarrow> Panic IndexOutOfRange
     | commitID # _ \<Rightarrow>
    if commitID = '''' then Http404 smithyConfig
    else
    (case CommitObject (repo_Repository repo) (NewHash L commitID) of
       Inl err \<Rightarrow> Http404 smithyConfig
     | Inr commitObj \<Rightarrow>
    if NumParents commitObj = 0 then Http500 smithyConfig
    else
    (case commit_Parent (repo_Repository repo) commitObj 0 of
       Inl err \<Rightarrow> Http500 smithyConfig
     | Inr parentCommit \<Rightarrow>
    (case CommitPatch (repo_Repository repo) parentCommit commitObj of
       Inl err \<Rightarrow> Http500 smithyConfig
     | Inr patch \<Rightarrow>
    (let commitHashStr = ''From '' @ commit_Hash commitObj @ '' Mon Sep 17 00:00:00 2001'';
         from = ''From: '' @ sig_Name (commit_Author commitObj) @ '' <''
                  @ sig_Email (commit_Author commitObj) @ ''>'';
         date = ''Date: ''
                  @ time_Format L commitFormatDate (sig_When (commit_Author commitObj));
         subject = ''Subject: [PATCH] '' @ commit_Message commitObj
     in
    (case CommitStats (repo_Repository repo) commitObj of
       Inl err \<Rightarrow> Http500 smithyConfig
     | Inr stats \<Rightarrow>
      Text StatusOK
        (commitHashStr @ [LF] @ from @ [LF] @ date @ [LF] @ subject @ [LF]
           @ ''---'' @ [LF] @ stats @ [LF] @ patch)))))))))"

definition CommitView :: "lib \<Rightarrow> SmithyConfig \<Rightarrow> string list \<Rightarrow> response" where
  "CommitView L smithyConfig urlParts =
    (case urlParts of
       [] \<Rightarrow> Panic IndexOutOfRange
     | repoName # rest \<Rightarrow>
    (case FindRepo smithyConfig repoName of
       None \<Rightarrow> Http404 smithyConfig
     | Some repo \<Rightarrow>
    (case rest of
       [] \<Rightarrow> Panic IndexOutOfRange
     | commitID # _ \<Rightarrow>
    if commitID = '''' then Http404 smithyConfig
    else
    (case CommitObject (repo_Repository repo) (NewHash L commitID) of
       Inl err \<Rightarrow> Http404 smithyConfig
     | Inr commitObj \<Rightarrow>
    (case GetChanges (repo_Repository repo) commitObj of
       Inl err \<Rightarrow> Http404 smithyConfig
     | Inr changes \<Rightarrow>
    (case FormatChanges L (repo_Repository repo) changes of
       Inl err \<Rightarrow> Http404 smithyConfig
     | Inr formattedChanges \<Rightarrow>
      HTML StatusOK ''commit.html'' (makeTemplateContext smithyConfig
        [''RepoName'' \<mapsto> VString repoName,
         ''Commit'' \<mapsto> VCommit commitObj,
         ''Changes'' \<mapsto> VHTML formattedChanges])))))))"

section \<open>Routes\<close>

text \<open>
  The regular expressions of \<open>CompileRoutes\<close> are sequences of: the anchors \<open>^\<close> and \<open>$\<close>,
  one character of a class, a class repeated greedily (\<open>+\<close> and \<open>*\<close>), and the two ends of a
  capture group. The classes are the label class \<open>[a-zA-Z0-9\-~\.]\<close>, the commit class
  \<open>[a-z0-9]\<close>, the dot (any character but a line feed) and a literal character.
\<close>

datatype cls = Label | LowerDigit | AnyChar | Exactly char

fun cls_mem :: "cls \<Rightarrow> char \<Rightarrow> bool" where
  "cls_mem Label c =
     (c \<in> set ''abcdefghijklmnopqrstuvwxyzABCDEFGHIJKLMNOPQRSTUVWXYZ0123456789-~.'')"
| "cls_mem LowerDigit c = (c \<in> set ''abcdefghijklmnopqrstuvwxyz0123456789'')"
| "cls_mem AnyChar c = (c \<noteq> CHR 0x0A)"
| "cls_mem (Exactly x) c = (c = x)"

datatype atom = Bol | Eol | Single cls | Many1 cls | Many0 cls | GroupOpen | GroupClose

type_synonym regex = "atom list"

definition lit :: "string \<Rightarrow> regex" where
  "lit s = map (\<lambda>c. Single (Exactly c)) s"

definition group :: "regex \<Rightarrow> regex" where
  "group r = GroupOpen # r @ [GroupClose]"

text \<open>
  The text of the groups while a match runs, in the order the groups open, each with a
  flag that it is still open; group 0, the whole match, is open from the start. A
  character read is added to every open group; a closing parenthesis closes the group
  opened last.
\<close>

type_synonym caps = "(bool \<times> string) list"

definition feed :: "char \<Rightarrow> caps \<Rightarrow> caps" where
  "feed c cs = map (\<lambda>(is_open, s). if is_open then (is_open, s @ [c]) else (is_open, s)) cs"

fun close_first :: "caps \<Rightarrow> caps" where
  "close_first [] = []"
| "close_first ((is_open, s) # cs) =
     (if is_open then (False, s) # cs else (is_open, s) # close_first cs)"

definition close_last :: "caps \<Rightarrow> caps" where
  "close_last cs = rev (close_first (rev cs))"

text \<open>
  Matching at one position, as a backtracking matcher runs it, which is the match Go's
  \<open>regexp\<close> reports (leftmost, and first in the order a backtracking search tries):
  a repetition takes as many characters as it can and gives them back one by one. The
  flag says that the position is the start of the text. A pattern that is used up
  matches, whatever follows in the text.
\<close>

fun rmatch :: "regex \<Rightarrow> bool \<Rightarrow> string \<Rightarrow> caps \<Rightarrow> caps option" where
  "rmatch [] at_start s cs = Some cs"
| "rmatch (Bol # r) at_start s cs = (if at_start then rmatch r at_start s cs else None)"
| "rmatch (Eol # r) at_start s cs = (if s = [] then rmatch r at_start s cs else None)"
| "rmatch (Single k # r) at_start [] cs = None"
| "rmatch (Single k # r) at_start (c # s) cs =
     (if cls_mem k c then rmatch r False s (feed c cs) else None)"
| "rmatch (Many1 k # r) at_start [] cs = None"
| "rmatch (Many1 k # r) at_start (c # s) cs =
     (if cls_mem k c then rmatch (Many0 k # r) False s (feed c cs) else None)"
| "rmatch (Many0 k # r) at_start [] cs = rmatch r at_start [] cs"
| "rmatch (Many0 k # r) at_start (c # s) cs =
     (if cls_mem k c then
        (case rmatch (Many0 k # r) False s (feed c cs) of
           Some res \<Rightarrow> Some res
         | None \<Rightarrow> rmatch r at_start (c # s) cs)
      else rmatch r at_start (c # s) cs)"
| "rmatch (GroupOpen # r) at_start s cs = rmatch r at_start s (cs @ [(True, [])])"
| "rmatch (GroupClose # r) at_start s cs = rmatch r at_start s (close_last cs)"

text \<open>The leftmost match: the positions of the text are tried from the first on.\<close>

fun search :: "regex \<Rightarrow> bool \<Rightarrow> string \<Rightarrow> string list option" where
  "search r at_start [] =
     (case rmatch r at_start [] [(True, [])] of
        Some cs \<Rightarrow> Some (map snd cs)
      | None \<Rightarrow> None)"
| "search r at_start (c # s) =
     (case rmatch r at_start (c # s) [(True, [])] of
        Some cs \<Rightarrow> Some (map snd cs)
      | None \<Rightarrow> search r False s)"

definition MatchString :: "regex \<Rightarrow> string \<Rightarrow> bool" where
  "MatchString r s = (search r True s \<noteq> None)"

text \<open>\<open>FindStringSubmatch\<close>: the whole match and the groups, or nil.\<close>

definition FindStringSubmatch :: "regex \<Rightarrow> string \<Rightarrow> string list" where
  "FindStringSubmatch r s = (case search r True s of None \<Rightarrow> [] | Some ms \<Rightarrow> ms)"

text \<open>
  The handlers of the route table, by name: \<open>Dispatch\<close> decides which one is called and
  with which url parts.
\<close>

datatype handler =
    hIndexView | hRepoIndexView | hRepoGitView | hRefsView | hLogViewDefault | hLogView
  | hCommitView | hPatchView | hTreeView

record Route =
  Pattern :: regex
  View :: handler

definition label :: regex where
  "label = [Many1 Label]"

definition indexUrl :: regex where
  "indexUrl = Bol # lit ''/'' @ [Eol]"

definition repoGitUrl :: regex where
  "repoGitUrl = Bol # lit ''/git/'' @ group label"

definition repoIndexUrl :: regex where
  "repoIndexUrl = Bol # lit ''/'' @ group label @ [Eol]"

definition refsUrl :: regex where
  "refsUrl = Bol # lit ''/'' @ group label @ lit ''/refs'' @ [Eol]"

definition logDefaultUrl :: regex where
  "logDefaultUrl = Bol # lit ''/'' @ group label @ lit ''/log'' @ [Eol]"

definition logUrl :: regex where
  "logUrl = Bol # lit ''/'' @ group label @ lit ''/log/'' @ group label @ [Eol]"

definition commitUrl :: regex where
  "commitUrl =
     Bol # lit ''/'' @ group label @ lit ''/commit/'' @ group [Many1 LowerDigit] @ [Eol]"

definition patchUrl :: regex where
  "patchUrl =
     Bol # lit ''/'' @ group label @ lit ''/commit/'' @ group [Many1 LowerDigit]
       @ [Single AnyChar] @ lit ''patch''"

definition treeRootUrl :: regex where
  "treeRootUrl = Bol # lit ''/'' @ group label @ lit ''/tree'' @ [Eol]"

definition treeRootRefUrl :: regex where
  "treeRootRefUrl = Bol # lit ''/'' @ group label @ lit ''/tree/'' @ group label @ [Eol]"

definition treeRootRefPathUrl :: regex where
  "treeRootRefPathUrl =
     Bol # lit ''/'' @ group label @ lit ''/tree/'' @ group label @ lit ''/''
       @ group [Many0 AnyChar] @ [Eol]"

definition CompileRoutes :: "Route list" where
  "CompileRoutes =
     [\<lparr>Pattern = indexUrl, View = hIndexView\<rparr>,
      \<lparr>Pattern = repoIndexUrl, View = hRepoIndexView\<rparr>,
      \<lparr>Pattern = repoGitUrl, View = hRepoGitView\<rparr>,
      \<lparr>Pattern = refsUrl, View = hRefsView\<rparr>,
      \<lparr>Pattern = logDefaultUrl, View = hLogViewDefault\<rparr>,
      \<lparr>Pattern = logUrl, View = hLogView\<rparr>,
      \<lparr>Pattern = commitUrl, View = hCommitView\<rparr>,
      \<lparr>Pattern = patchUrl, View = hPatchView\<rparr>,
      \<lparr>Pattern = treeRootUrl, View = hTreeView\<rparr>,
      \<lparr>Pattern = treeRootRefUrl, View = hTreeView\<rparr>,
      \<lparr>Pattern = treeRootRefPathUrl, View = hTreeView\<rparr>]"

section \<open>Dispatcher\<close>

text \<open>
  The request's \<open>URL\<close> as the server parses it from an origin-form request target (no
  scheme, host or fragment): what \<open>EscapedPath()\<close> gives, the raw query, and
  \<open>ForceQuery\<close>, set for a target that ends in a bare question mark. \<open>URL.String()\<close> prints
  the escaped path, and a question mark with the query when \<open>ForceQuery\<close> is set or the
  query is not empty. The escaped path is ASCII, so a character of the text is a byte,
  as in the strings of the model.
\<close>

record URL =
  url_EscapedPath :: string
  url_RawQuery :: string
  url_ForceQuery :: bool

definition URL_String :: "URL \<Rightarrow> string" where
  "URL_String u =
     url_EscapedPath u
       @ (if url_ForceQuery u \<or> url_RawQuery u \<noteq> [] then ''?'' @ url_RawQuery u else [])"

definition HasPrefix :: "string \<Rightarrow> string \<Rightarrow> bool" where
  "HasPrefix s p = (take (length p) s = p)"

text \<open>
  What \<open>Dispatch\<close> does with a request: hands it to the static file server, calls a
  handler with the url parts, or answers \<open>Http404\<close>.
\<close>

datatype dispatched = ServeStatic | Call handler "string list" | NotFound

text \<open>The inner loop: every submatch but the one of index 0.\<close>

fun urlParts_of :: "nat \<Rightarrow> string list \<Rightarrow> string list" where
  "urlParts_of i [] = []"
| "urlParts_of i (m # ms) = (if i \<noteq> 0 then m # urlParts_of (i + 1) ms else urlParts_of (i + 1) ms)"

fun Dispatch_loop :: "Route list \<Rightarrow> string \<Rightarrow> dispatched" where
  "Dispatch_loop [] urlPath = NotFound"
| "Dispatch_loop (route # routes) urlPath =
     (if \<not> MatchString (Pattern route) urlPath then Dispatch_loop routes urlPath
      else Call (View route) (urlParts_of 0 (FindStringSubmatch (Pattern route) urlPath)))"

definition Dispatch :: "Route list \<Rightarrow> URL \<Rightarrow> dispatched" where
  "Dispatch routes u =
     (let urlPath = URL_String u
      in if HasPrefix urlPath ''/static/'' then ServeStatic
         else Dispatch_loop routes urlPath)"

section \<open>Reading a pattern\<close>

text \<open>
  A pattern avoids a character when none of its classes holds it: no text with that
  character can be read by the pattern from end to end.
\<close>

fun atom_avoids :: "char \<Rightarrow> atom \<Rightarrow> bool" where
  "atom_avoids q (Single k) = (\<not> cls_mem k q)"
| "atom_avoids q (Many1 k) = (\<not> cls_mem k q)"
| "atom_avoids q (Many0 k) = (\<not> cls_mem k q)"
| "atom_avoids q _ = True"

definition avoids :: "char \<Rightarrow> regex \<Rightarrow> bool" where
  "avoids q r = list_all (atom_avoids q) r"

section \<open>Reading a response\<close>

text \<open>
  What a response carries for the tree page: directory data (the \<open>Files\<close> of a listing, the
  \<open>SubTree\<close> name) and file data (the \<open>File\<close> entry and its \<open>Contents\<close>, plain or
  highlighted).
\<close>

definition carries_directory :: "response \<Rightarrow> bool" where
  "carries_directory resp =
     (case resp of
        HTML status name h \<Rightarrow> h ''Files'' \<noteq> None \<or> h ''SubTree'' \<noteq> None
      | _ \<Rightarrow> False)"

definition carries_file :: "response \<Rightarrow> bool" where
  "carries_file resp =
     (case resp of
        HTML status name h \<Rightarrow>
          h ''File'' \<noteq> None \<or> h ''Contents'' \<noteq> None \<or> h ''ContentsHighlighted'' \<noteq> None
      | _ \<Rightarrow> False)"


section \<open>A sample repository\<close>

text \<open>
  Concrete inputs for the instances below: a store with a root commit, a child of it, a
  commit whose parent is missing from the store (a shallow clone), a commit whose tree is
  missing, and a history of 150 commits.
\<close>

definition sample_hash :: "char \<Rightarrow> Hash" where
  "sample_hash c = replicate 40 c"

definition sample_sig :: "Time \<Rightarrow> Signature" where
  "sample_sig t = \<lparr>sig_Name = ''Ada'', sig_Email = ''ada@example.org'', sig_When = t\<rparr>"

definition sample_root :: object_Commit where
  "sample_root =
     \<lparr>commit_Hash = sample_hash CHR ''a'',
      commit_Author = sample_sig 1000, commit_Committer = sample_sig 1000,
      commit_Message = ''initial commit'' @ [LF] @ [LF] @ ''Adds the README.'' @ [LF],
      commit_TreeHash = sample_hash CHR ''1'',
      commit_ParentHashes = []\<rparr>"

definition sample_child :: object_Commit where
  "sample_child =
     \<lparr>commit_Hash = sample_hash CHR ''b'',
      commit_Author = sample_sig 2000, commit_Committer = sample_sig 2000,
      commit_Message = ''add app'' @ [LF],
      commit_TreeHash = sample_hash CHR ''2'',
      commit_ParentHashes = [sample_hash CHR ''a'']\<rparr>"

definition sample_shallow :: object_Commit where
  "sample_shallow =
     \<lparr>commit_Hash = sample_hash CHR ''c'',
      commit_Author = sample_sig 3000, commit_Committer = sample_sig 3000,
      commit_Message = ''grafted'' @ [LF],
      commit_TreeHash = sample_hash CHR ''2'',
      commit_ParentHashes = [sample_hash CHR ''f'']\<rparr>"

definition sample_broken :: object_Commit where
  "sample_broken =
     \<lparr>commit_Hash = sample_hash CHR ''d'',
      commit_Author = sample_sig 4000, commit_Committer = sample_sig 4000,
      commit_Message = ''tree lost'' @ [LF],
      commit_TreeHash = sample_hash CHR ''9'',
      commit_ParentHashes = [sample_hash CHR ''a'']\<rparr>"

definition sample_readme :: TreeEntry where
  "sample_readme =
     \<lparr>entry_Name = ''README'', entry_Mode = Regular, entry_Hash = sample_hash CHR ''4''\<rparr>"

definition sample_src :: TreeEntry where
  "sample_src = \<lparr>entry_Name = ''src'', entry_Mode = Dir, entry_Hash = sample_hash CHR ''3''\<rparr>"

definition sample_app :: TreeEntry where
  "sample_app =
     \<lparr>entry_Name = ''app.go'', entry_Mode = Regular, entry_Hash = sample_hash CHR ''5''\<rparr>"

definition sample_tree1 :: Tree where
  "sample_tree1 = \<lparr>tree_Hash = sample_hash CHR ''1'', tree_Entries = [sample_readme]\<rparr>"

definition sample_tree2 :: Tree where
  "sample_tree2 =
     \<lparr>tree_Hash = sample_hash CHR ''2'', tree_Entries = [sample_readme, sample_src]\<rparr>"

definition sample_tree3 :: Tree where
  "sample_tree3 = \<lparr>tree_Hash = sample_hash CHR ''3'', tree_Entries = [sample_app]\<rparr>"

definition sample_history :: "nat \<Rightarrow> object_Commit" where
  "sample_history n =
     \<lparr>commit_Hash = sample_hash CHR ''e'',
      commit_Author = sample_sig (5000 - int n), commit_Committer = sample_sig (5000 - int n),
      commit_Message = ''step'' @ [LF],
      commit_TreeHash = sample_hash CHR ''2'',
      commit_ParentHashes = [sample_hash CHR ''e'']\<rparr>"

text \<open>
  A tip whose committer time (8000) is earlier than its parent's (9000), as a clock set
  back leaves it; the iterator of \<open>Log\<close> gives the tip first.
\<close>

definition sample_skew_parent :: object_Commit where
  "sample_skew_parent =
     \<lparr>commit_Hash = sample_hash CHR ''7'',
      commit_Author = sample_sig 9000, commit_Committer = sample_sig 9000,
      commit_Message = ''first'' @ [LF],
      commit_TreeHash = sample_hash CHR ''2'',
      commit_ParentHashes = []\<rparr>"

definition sample_skew_tip :: object_Commit where
  "sample_skew_tip =
     \<lparr>commit_Hash = sample_hash CHR ''8'',
      commit_Author = sample_sig 8000, commit_Committer = sample_sig 8000,
      commit_Message = ''second'' @ [LF],
      commit_TreeHash = sample_hash CHR ''1'',
      commit_ParentHashes = [sample_hash CHR ''7'']\<rparr>"

definition not_found :: "error + 'a" where
  "not_found = Inl (Err ''object not found'')"

definition sample_repo :: Repository where
  "sample_repo =
     \<lparr>ResolveRevision = (\<lambda>rev.
        if rev = ''main'' then Inr (sample_hash CHR ''b'')
        else if rev = ''v1.0'' then Inr (sample_hash CHR ''a'')
        else if rev = ''graft'' then Inr (sample_hash CHR ''c'')
        else if rev = ''broken'' then Inr (sample_hash CHR ''d'')
        else if rev = ''long'' then Inr (sample_hash CHR ''e'')
        else if rev = ''skew'' then Inr (sample_hash CHR ''8'')
        else Inl (Err ''reference not found'')),
      CommitObject = (\<lambda>h.
        if h = sample_hash CHR ''a'' then Inr sample_root
        else if h = sample_hash CHR ''b'' then Inr sample_child
        else if h = sample_hash CHR ''c'' then Inr sample_shallow
        else if h = sample_hash CHR ''d'' then Inr sample_broken
        else not_found),
      TreeObject = (\<lambda>h.
        if h = sample_hash CHR ''1'' then Inr sample_tree1
        else if h = sample_hash CHR ''2'' then Inr sample_tree2
        else if h = sample_hash CHR ''3'' then Inr sample_tree3
        else not_found),
      Log = (\<lambda>opts.
        if log_From opts = sample_hash CHR ''b'' then Inr [Inr sample_child, Inr sample_root]
        else if log_From opts = sample_hash CHR ''a'' then Inr [Inr sample_root]
        else if log_From opts = sample_hash CHR ''c''
          then Inr [Inr sample_shallow, Inl (Err ''object not found'')]
        else if log_From opts = sample_hash CHR ''e''
          then Inr (map (\<lambda>n. Inr (sample_history n)) [0..<150])
        else if log_From opts = sample_hash CHR ''8''
          then Inr [Inr sample_skew_tip, Inr sample_skew_parent]
        else not_found),
      Branches = Inr [Inr \<lparr>ref_Name = ''refs/heads/main'', ref_Hash = sample_hash CHR ''b''\<rparr>],
      Tags = Inr [Inr \<lparr>ref_Name = ''refs/tags/v1.0'', ref_Hash = sample_hash CHR ''a''\<rparr>],
      FindEntry = (\<lambda>t path.
        if path = ''README'' then Inr sample_readme
        else if tree_Hash t = sample_hash CHR ''2'' \<and> path = ''src'' then Inr sample_src
        else if tree_Hash t = sample_hash CHR ''2'' \<and> path = ''src/app.go'' then Inr sample_app
        else Inl (Err ''entry not found'')),
      SubTree = (\<lambda>t path.
        if tree_Hash t = sample_hash CHR ''2'' \<and> path = ''src'' then Inr sample_tree3
        else Inl (Err ''directory not found'')),
      TreeFile = (\<lambda>t path.
        if path = ''README''
          then Inr \<lparr>file_Name = ''README'', file_Mode = Regular, file_Hash = sample_hash CHR ''4''\<rparr>
        else if tree_Hash t = sample_hash CHR ''2'' \<and> path = ''src/app.go''
          then Inr \<lparr>file_Name = ''src/app.go'', file_Mode = Regular,
                    file_Hash = sample_hash CHR ''5''\<rparr>
        else Inl (Err ''file not found'')),
      Contents = (\<lambda>f.
        if file_Hash f = sample_hash CHR ''4'' then Inr ''smithy''
        else if file_Hash f = sample_hash CHR ''5'' then Inr ''package main''
        else not_found),
      CommitPatch = (\<lambda>from to. Inr ''diff --git a/src/app.go b/src/app.go''),
      CommitStats = (\<lambda>c. Inr '' src/app.go | 1 +''),
      TreeDepth = 8,
      DiffTrees = (\<lambda>from to.
        case to of
          None \<Rightarrow> Inl (Err ''diff failed'')
        | Some t \<Rightarrow>
            if tree_Hash from = sample_hash CHR ''1'' \<and> tree_Hash t = sample_hash CHR ''2''
            then Inr [\<lparr>change_From = None, change_To = Some (''src/app.go'', sample_app)\<rparr>]
            else Inl (Err ''diff failed'')),
      ChangePatch = (\<lambda>ch. Inr ''+package main'')\<rparr>"

definition sample_lib :: lib where
  "sample_lib =
     \<lparr>NewHash = (\<lambda>s. s),
      filepath_Dir = (\<lambda>p. if p = ''src/app.go'' then ''src'' else ''.''),
      lexers_Match = (\<lambda>name. if name = ''src/app.go'' then Some ''Go'' else None),
      chroma_Format = (\<lambda>lexer contents. Inr (''<span>'' @ contents @ ''</span>'')),
      time_Format = (\<lambda>layout t. ''Thu, 1 Jan 1970 00:33:20 +0000''),
      UnifiedEncoder_Encode = (\<lambda>p. (''<div>'' @ p @ ''</div>'', None)),
      sort_ties = rev\<rparr>"

definition sample_config :: SmithyConfig where
  "sample_config =
     \<lparr>cfg_Title = ''Smithy'', cfg_Description = ''git forge'', cfg_Host = ''localhost'',
      FindRepo = (\<lambda>slug.
        if slug = ''myrepo'' then Some \<lparr>repo_Name = ''myrepo'', repo_Repository = sample_repo\<rparr>
        else None)\<rparr>"

section \<open>Theorems\<close>

subsection \<open>Reference collector\<close>

lemma ReferenceCollector_loop_items:
  "ReferenceCollector_loop (map Inr pre @ rest) refs = ReferenceCollector_loop rest (refs @ pre)"
  by (induction pre arbitrary: refs) simp_all

lemma ReferenceCollector_loop_end:
  "ReferenceCollector_loop (map Inr pre) refs = (refs @ pre, None)"
  using ReferenceCollector_loop_items [of pre "[]" refs] by simp

lemma sort_Sort_sorted: "sorted (map ref_Name (sort_Sort L refs))"
  by (simp add: sort_Sort_def)

lemma sort_Sort_mset: "mset (sort_Sort L refs) = mset refs"
  by (simp add: sort_Sort_def)

lemma filter_same_key:
  "distinct (map f zs) \<Longrightarrow> k \<in> set zs \<Longrightarrow> filter (\<lambda>x. f k = f x) zs = [k]"
proof (induction zs)
  case Nil
  then show ?case by simp
next
  case (Cons z zs)
  show ?case
  proof (cases "k = z")
    case True
    have "filter (\<lambda>x. f z = f x) zs = []"
      using Cons.prems(1) by (auto simp: filter_empty_conv)
    with True show ?thesis by simp
  next
    case False
    with Cons.prems have mem: "k \<in> set zs"
      by simp
    then have "f k \<in> f ` set zs"
      by (rule imageI)
    with Cons.prems(1) have "f k \<noteq> f z"
      by auto
    with Cons mem show ?thesis by simp
  qed
qed

lemma sort_key_rearranged:
  assumes "mset ys = mset xs" and "distinct (map f xs)"
  shows "sort_key f ys = sort_key f xs"
proof -
  have "mset (map f ys) = mset (map f xs)"
    using assms(1) by simp
  then have dist: "distinct (map f ys)"
    using assms(2) mset_eq_imp_distinct_iff by blast
  have same: "set xs = set ys"
    using assms(1) mset_eq_setD by metis
  show ?thesis
  proof (rule properties_for_sort_key)
    show "mset (sort_key f xs) = mset ys"
      using assms(1) by simp
    show "sorted (map f (sort_key f xs))"
      by simp
  next
    fix k
    assume "k \<in> set (sort_key f xs)"
    then have k: "k \<in> set xs"
      by simp
    have "filter (\<lambda>x. f k = f x) (sort_key f xs) = sort_key f (filter (\<lambda>x. f k = f x) xs)"
      by (simp add: filter_sort)
    also have "\<dots> = [k]"
      using filter_same_key [OF assms(2) k] by simp
    also have "\<dots> = filter (\<lambda>x. f k = f x) ys"
      using filter_same_key [OF dist] k same by simp
    finally show "filter (\<lambda>x. f k = f x) (sort_key f xs) = filter (\<lambda>x. f k = f x) ys" .
  qed
qed

lemma sort_Sort_distinct:
  assumes "distinct (map ref_Name refs)"
  shows "sort_Sort L refs = sort_key ref_Name refs"
proof (cases "mset (sort_ties L refs) = mset refs")
  case True
  then have "sort_key ref_Name (sort_ties L refs) = sort_key ref_Name refs"
    using assms by (rule sort_key_rearranged)
  with True show ?thesis
    by (simp add: sort_Sort_def)
next
  case False
  then show ?thesis
    by (simp add: sort_Sort_def)
qed

text \<open>Every sorted arrangement of the slice is what \<open>sort_Sort\<close> gives for some \<open>sort_ties\<close>.\<close>

lemma sort_Sort_any_arrangement:
  assumes "sorted (map ref_Name arranged)" and "mset arranged = mset refs"
  shows "sort_Sort (L\<lparr>sort_ties := \<lambda>slice. arranged\<rparr>) refs = arranged"
  using assms by (simp add: sort_Sort_def sort_key_id_if_sorted)

text \<open>
  Claim C7. A collection that succeeds returns the references sorted by their full names
  under the lexicographic order of strings (non-decreasing), and they are the references
  the iterator gave before its end, in the one sorted order when their names differ; an
  iterator that ends at once gives the empty list and no error; an error other than
  end-of-stream is returned to the caller, with the references read before it.
\<close>

theorem ReferenceCollector_sorted_or_error:
  "(ReferenceCollector L it = (refs, None) \<longrightarrow> sorted (map ref_Name refs))
   \<and> ReferenceCollector L (map Inr pre) = (sort_Sort L pre, None)
   \<and> ReferenceCollector L (map Inr pre @ Inl EOF # rest) = (sort_Sort L pre, None)
   \<and> sorted (map ref_Name (sort_Sort L pre))
   \<and> mset (sort_Sort L pre) = mset pre
   \<and> (distinct (map ref_Name pre) \<longrightarrow> sort_Sort L pre = sort_key ref_Name pre)
   \<and> ReferenceCollector L ([] :: Reference iter) = ([], None)
   \<and> ReferenceCollector L (map Inr pre @ Inl (Err msg) # rest) = (pre, Some (Err msg))"
proof (intro conjI impI)
  assume ok: "ReferenceCollector L it = (refs, None)"
  obtain rs e where loop: "ReferenceCollector_loop it [] = (rs, e)"
    by (cases "ReferenceCollector_loop it []") auto
  with ok have "e = None" and "refs = sort_Sort L rs"
    by (auto simp: ReferenceCollector_def split: option.splits)
  then show "sorted (map ref_Name refs)"
    by (simp add: sort_Sort_sorted)
next
  show "ReferenceCollector L (map Inr pre) = (sort_Sort L pre, None)"
    by (simp add: ReferenceCollector_def ReferenceCollector_loop_end)
next
  show "ReferenceCollector L (map Inr pre @ Inl EOF # rest) = (sort_Sort L pre, None)"
    by (simp add: ReferenceCollector_def ReferenceCollector_loop_items)
next
  show "sorted (map ref_Name (sort_Sort L pre))"
    by (rule sort_Sort_sorted)
next
  show "mset (sort_Sort L pre) = mset pre"
    by (rule sort_Sort_mset)
next
  assume "distinct (map ref_Name pre)"
  then show "sort_Sort L pre = sort_key ref_Name pre"
    by (rule sort_Sort_distinct)
next
  show "ReferenceCollector L ([] :: Reference iter) = ([], None)"
    by (simp add: ReferenceCollector_def sort_Sort_def)
next
  show "ReferenceCollector L (map Inr pre @ Inl (Err msg) # rest) = (pre, Some (Err msg))"
    by (simp add: ReferenceCollector_def ReferenceCollector_loop_items)
qed

theorem ReferenceCollector_sorted_or_error_witness:
  "ReferenceCollector sample_lib
     [Inr \<lparr>ref_Name = ''refs/heads/main'', ref_Hash = ''1f''\<rparr>,
      Inr \<lparr>ref_Name = ''refs/heads/dev'', ref_Hash = ''2a''\<rparr>]
     = ([\<lparr>ref_Name = ''refs/heads/dev'', ref_Hash = ''2a''\<rparr>,
         \<lparr>ref_Name = ''refs/heads/main'', ref_Hash = ''1f''\<rparr>], None)
   \<and> sorted [''refs/heads/dev'', ''refs/heads/main'']
   \<and> distinct [''refs/heads/main'', ''refs/heads/dev'']
   \<and> ReferenceCollector sample_lib ([] :: Reference iter) = ([], None)
   \<and> ReferenceCollector sample_lib
       [Inr \<lparr>ref_Name = ''refs/heads/main'', ref_Hash = ''1f''\<rparr>,
        Inl (Err ''packed-refs: unexpected end''),
        Inr \<lparr>ref_Name = ''refs/heads/dev'', ref_Hash = ''2a''\<rparr>]
     = ([\<lparr>ref_Name = ''refs/heads/main'', ref_Hash = ''1f''\<rparr>],
        Some (Err ''packed-refs: unexpected end''))"
  using ReferenceCollector_sorted_or_error
    [where L = sample_lib
       and it = "[Inr \<lparr>ref_Name = ''refs/heads/main'', ref_Hash = ''1f''\<rparr>,
                  Inr \<lparr>ref_Name = ''refs/heads/dev'', ref_Hash = ''2a''\<rparr>]"
       and refs = "[\<lparr>ref_Name = ''refs/heads/dev'', ref_Hash = ''2a''\<rparr>,
                    \<lparr>ref_Name = ''refs/heads/main'', ref_Hash = ''1f''\<rparr>]"
       and pre = "[\<lparr>ref_Name = ''refs/heads/main'', ref_Hash = ''1f''\<rparr>,
                   \<lparr>ref_Name = ''refs/heads/dev'', ref_Hash = ''2a''\<rparr>]"
       and rest = "[]" and msg = "''packed-refs: unexpected end''"]
    ReferenceCollector_sorted_or_error
    [where L = sample_lib
       and pre = "[\<lparr>ref_Name = ''refs/heads/main'', ref_Hash = ''1f''\<rparr>]"
       and rest = "[Inr \<lparr>ref_Name = ''refs/heads/dev'', ref_Hash = ''2a''\<rparr>]"
       and msg = "''packed-refs: unexpected end''"]
  by simp

subsection \<open>Default branch\<close>

lemma findMainBranch_cases:
  "findMainBranch repo =
     (case ResolveRevision repo ''main'' of
        Inr h \<Rightarrow> ([], Inr (''main'', h))
      | Inl e1 \<Rightarrow>
          (case ResolveRevision repo ''master'' of
             Inr h \<Rightarrow> ([e1], Inr (''master'', h))
           | Inl e2 \<Rightarrow> ([e1, e2], Inl (Err ''failed to find a 'main' or 'master' branch''))))"
  by (simp add: findMainBranch_def split: sum.splits)

text \<open>
  Claim C6. With no revision given the default-branch policy applies: \<open>findMainBranch\<close>
  returns "main" with its commit when "main" resolves, else "master" with its commit when
  that resolves, and fails only when neither does. When "main" resolves, the commit is
  the one a resolution of "main" gives, the tree view without a reference answers what
  the tree view of "main" answers, and the log without a reference redirects to the log
  of "main".
\<close>

theorem findMainBranch_default_policy:
  "snd (findMainBranch repo) =
     (case ResolveRevision repo ''main'' of
        Inr h \<Rightarrow> Inr (''main'', h)
      | Inl e1 \<Rightarrow>
          (case ResolveRevision repo ''master'' of
             Inr h \<Rightarrow> Inr (''master'', h)
           | Inl e2 \<Rightarrow> Inl (Err ''failed to find a 'main' or 'master' branch'')))
   \<and> (ResolveRevision repo ''main'' = Inr h \<longrightarrow> snd (findMainBranch repo) = Inr (''main'', h))
   \<and> (FindRepo cfg name = Some r \<and> ResolveRevision (repo_Repository r) ''main'' = Inr h \<longrightarrow>
        TreeView L cfg [name] = TreeView L cfg [name, ''main'']
        \<and> LogViewDefault uri cfg [name] = Redirect StatusPermanentRedirect (uri @ ''/main''))"
  by (simp add: findMainBranch_cases TreeView_def LogViewDefault_def split: sum.splits)

theorem findMainBranch_default_policy_witness:
  "snd (findMainBranch sample_repo) = Inr (''main'', sample_hash CHR ''b'')
   \<and> ResolveRevision sample_repo ''main'' = Inr (sample_hash CHR ''b'')
   \<and> TreeView sample_lib sample_config [''myrepo'']
       = TreeView sample_lib sample_config [''myrepo'', ''main'']
   \<and> LogViewDefault ''/myrepo/log'' sample_config [''myrepo'']
       = Redirect StatusPermanentRedirect ''/myrepo/log/main''"
  using findMainBranch_default_policy
    [of sample_repo "sample_hash CHR ''b''" sample_config "''myrepo''"
        "\<lparr>repo_Name = ''myrepo'', repo_Repository = sample_repo\<rparr>" sample_lib "''/myrepo/log''"]
  by (simp add: sample_repo_def sample_config_def)

subsection \<open>Tree view\<close>

lemma TreeView_not_both:
  "\<not> (carries_directory (TreeView L cfg urlParts) \<and> carries_file (TreeView L cfg urlParts))"
  by (auto simp: TreeView_def carries_directory_def carries_file_def Http404_def makeTemplateContext_def Let_def
      split: list.splits option.splits sum.splits prod.splits)

lemma TreeView_shapes:
  "urlParts \<noteq> [] \<Longrightarrow>
     TreeView L cfg urlParts = Http404 cfg
     \<or> (\<exists>h. TreeView L cfg urlParts = HTML StatusOK ''tree.html'' h
            \<and> h ''Path'' = Some (VString '''') \<and> h ''SubTree'' = None \<and> h ''Files'' \<noteq> None)
     \<or> (\<exists>h. TreeView L cfg urlParts = HTML StatusOK ''tree.html'' h
            \<and> h ''Path'' \<noteq> Some (VString '''') \<and> h ''SubTree'' \<noteq> None \<and> h ''Files'' \<noteq> None)
     \<or> (\<exists>h. TreeView L cfg urlParts = HTML StatusOK ''blob.html'' h
            \<and> h ''File'' \<noteq> None \<and> h ''Contents'' \<noteq> None)"
  by (auto simp: TreeView_def Http404_def makeTemplateContext_def Let_def
      split: list.splits option.splits sum.splits prod.splits)

lemma TreeView_at_entry:
  assumes "FindRepo cfg repoName = Some r"
    and "ResolveRevision (repo_Repository r) ref = Inr revision"
    and "CommitObject (repo_Repository r) revision = Inr c"
    and "commit_Tree (repo_Repository r) c = Inr t"
    and "path \<noteq> []"
    and "FindEntry (repo_Repository r) t path = Inr e"
  shows "(IsFile (entry_Mode e) \<longrightarrow>
            \<not> carries_directory (TreeView L cfg [repoName, ref, path]))
       \<and> (\<not> IsFile (entry_Mode e) \<longrightarrow>
            \<not> carries_file (TreeView L cfg [repoName, ref, path]))"
  using assms
  by (auto simp: TreeView_def carries_directory_def carries_file_def Http404_def makeTemplateContext_def Let_def
      split: sum.splits)

text \<open>
  Claim C5. Tree navigation answers exactly one of: the not-found page, the root listing
  (template \<open>tree.html\<close>, empty path, no subtree name), a directory listing (template
  \<open>tree.html\<close> with the subtree name and a path), a file (template \<open>blob.html\<close>). No
  answer carries both directory and file data. A path that resolves to a file entry
  never gives a directory listing, and a path that resolves to an entry that is not a
  file never gives file contents.
\<close>

theorem TreeView_exclusive:
  "\<not> (carries_directory (TreeView L cfg urlParts) \<and> carries_file (TreeView L cfg urlParts))
   \<and> (urlParts \<noteq> [] \<longrightarrow>
        TreeView L cfg urlParts = Http404 cfg
        \<or> (\<exists>h. TreeView L cfg urlParts = HTML StatusOK ''tree.html'' h
               \<and> h ''Path'' = Some (VString '''') \<and> h ''SubTree'' = None
               \<and> h ''Files'' \<noteq> None)
        \<or> (\<exists>h. TreeView L cfg urlParts = HTML StatusOK ''tree.html'' h
               \<and> h ''Path'' \<noteq> Some (VString '''') \<and> h ''SubTree'' \<noteq> None
               \<and> h ''Files'' \<noteq> None)
        \<or> (\<exists>h. TreeView L cfg urlParts = HTML StatusOK ''blob.html'' h
               \<and> h ''File'' \<noteq> None \<and> h ''Contents'' \<noteq> None))
   \<and> (FindRepo cfg repoName = Some r
        \<and> ResolveRevision (repo_Repository r) ref = Inr revision
        \<and> CommitObject (repo_Repository r) revision = Inr c
        \<and> commit_Tree (repo_Repository r) c = Inr t
        \<and> path \<noteq> []
        \<and> FindEntry (repo_Repository r) t path = Inr e
      \<longrightarrow> (IsFile (entry_Mode e) \<longrightarrow>
             \<not> carries_directory (TreeView L cfg [repoName, ref, path]))
        \<and> (\<not> IsFile (entry_Mode e) \<longrightarrow>
             \<not> carries_file (TreeView L cfg [repoName, ref, path])))"
  using TreeView_not_both [of L cfg urlParts] TreeView_shapes [of urlParts L cfg]
    TreeView_at_entry [of cfg repoName r ref revision c t path e L]
  by blast

theorem TreeView_exclusive_witness:
  "carries_file (TreeView sample_lib sample_config [''myrepo'', ''main'', ''src/app.go''])
   \<and> \<not> carries_directory (TreeView sample_lib sample_config [''myrepo'', ''main'', ''src/app.go''])
   \<and> carries_directory (TreeView sample_lib sample_config [''myrepo'', ''main'', ''src''])
   \<and> \<not> carries_file (TreeView sample_lib sample_config [''myrepo'', ''main'', ''src''])"
proof -
  let ?r = "\<lparr>repo_Name = ''myrepo'', repo_Repository = sample_repo\<rparr>"
  have found: "FindRepo sample_config ''myrepo'' = Some ?r"
    by (simp add: sample_config_def)
  have resolved: "ResolveRevision sample_repo ''main'' = Inr (sample_hash CHR ''b'')"
    by (simp add: sample_repo_def)
  have commit: "CommitObject sample_repo (sample_hash CHR ''b'') = Inr sample_child"
    by (simp add: sample_repo_def sample_hash_def)
  have tree: "commit_Tree sample_repo sample_child = Inr sample_tree2"
    by (simp add: commit_Tree_def sample_repo_def sample_child_def sample_hash_def)
  have app: "FindEntry sample_repo sample_tree2 ''src/app.go'' = Inr sample_app"
    by (simp add: sample_repo_def sample_tree2_def)
  have src: "FindEntry sample_repo sample_tree2 ''src'' = Inr sample_src"
    by (simp add: sample_repo_def sample_tree2_def)
  have is_file: "IsFile (entry_Mode sample_app)" and is_dir: "\<not> IsFile (entry_Mode sample_src)"
    by (simp_all add: sample_app_def sample_src_def)
  have sub: "SubTree sample_repo sample_tree2 ''src'' = Inr sample_tree3"
    by (simp add: sample_repo_def sample_tree2_def)
  have blob: "TreeFile sample_repo sample_tree2 ''src/app.go'' =
      Inr \<lparr>file_Name = ''src/app.go'', file_Mode = Regular, file_Hash = sample_hash CHR ''5''\<rparr>"
    by (simp add: sample_repo_def sample_tree2_def)
  have contents: "Contents sample_repo
      \<lparr>file_Name = ''src/app.go'', file_Mode = Regular, file_Hash = sample_hash CHR ''5''\<rparr>
      = Inr ''package main''"
    by (simp add: sample_repo_def sample_hash_def)
  have shows_file:
    "carries_file (TreeView sample_lib sample_config [''myrepo'', ''main'', ''src/app.go''])"
    by (simp add: TreeView_def found resolved commit tree app is_file blob contents Let_def
          carries_file_def makeTemplateContext_def)
  have shows_dir:
    "carries_directory (TreeView sample_lib sample_config [''myrepo'', ''main'', ''src''])"
    by (simp add: TreeView_def found resolved commit tree src is_dir sub Let_def
          carries_directory_def makeTemplateContext_def)
  from TreeView_exclusive
      [where cfg = sample_config and repoName = "''myrepo''" and r = ?r and ref = "''main''"
         and revision = "sample_hash CHR ''b''" and c = sample_child and t = sample_tree2
         and path = "''src/app.go''" and e = sample_app and L = sample_lib]
  have no_dir:
    "\<not> carries_directory (TreeView sample_lib sample_config [''myrepo'', ''main'', ''src/app.go''])"
    using found resolved commit tree app is_file by simp
  from TreeView_exclusive
      [where cfg = sample_config and repoName = "''myrepo''" and r = ?r and ref = "''main''"
         and revision = "sample_hash CHR ''b''" and c = sample_child and t = sample_tree2
         and path = "''src''" and e = sample_src and L = sample_lib]
  have no_file:
    "\<not> carries_file (TreeView sample_lib sample_config [''myrepo'', ''main'', ''src''])"
    using found resolved commit tree src is_dir by simp
  show ?thesis
    using shows_file no_dir shows_dir no_file by simp
qed

subsection \<open>Changes and patches\<close>

text \<open>
  Claim C1, as the code has it. When the commit's tree cannot be read, the tree view
  answers with the 404 page, and so does the commit view when computing the changes or
  rendering a file's patch fails: neither answers with the 500 page.
\<close>

theorem store_failure_answers_404:
  "(FindRepo cfg repoName = Some r
      \<and> ResolveRevision (repo_Repository r) ref = Inr revision
      \<and> CommitObject (repo_Repository r) revision = Inr c
      \<and> commit_Tree (repo_Repository r) c = Inl err
    \<longrightarrow> TreeView L cfg (repoName # ref # others) = Http404 cfg)
   \<and> (FindRepo cfg repoName = Some r \<and> commitID \<noteq> []
      \<and> CommitObject (repo_Repository r) (NewHash L commitID) = Inr c
      \<and> (GetChanges (repo_Repository r) c = Inl err
          \<or> (\<exists>changes. GetChanges (repo_Repository r) c = Inr changes
                \<and> FormatChanges L (repo_Repository r) changes = Inl err))
    \<longrightarrow> CommitView L cfg (repoName # commitID # others) = Http404 cfg)
   \<and> Http404 cfg \<noteq> Http500 cfg"
  by (auto simp: TreeView_def CommitView_def Http404_def Http500_def Let_def
        StatusNotFound_def StatusInternalServerError_def)

theorem store_failure_answers_404_witness:
  "commit_Tree sample_repo sample_broken = Inl (Err ''object not found'')
   \<and> TreeView sample_lib sample_config [''myrepo'', ''broken''] = Http404 sample_config
   \<and> GetChanges sample_repo sample_broken = Inl (Err ''object not found'')
   \<and> CommitView sample_lib sample_config [''myrepo'', sample_hash CHR ''d'']
       = Http404 sample_config
   \<and> Http404 sample_config \<noteq> Http500 sample_config"
  using store_failure_answers_404
    [where cfg = sample_config and repoName = "''myrepo''"
       and r = "\<lparr>repo_Name = ''myrepo'', repo_Repository = sample_repo\<rparr>"
       and ref = "''broken''" and revision = "sample_hash CHR ''d''" and c = sample_broken
       and err = "Err ''object not found''" and L = sample_lib and others = "[]"
       and commitID = "sample_hash CHR ''d''"]
  by (simp add: sample_config_def sample_repo_def sample_lib_def sample_broken_def sample_root_def
        sample_hash_def commit_Tree_def commit_Parent_def GetChanges_def not_found_def)










text \<open>
  Claim C2, amended. The patch view fails with the 500 page for a commit with no parent.
  For a commit with a parent, only the first parent is read: the view answers with the
  500 page when that parent cannot be loaded, when the patch against it fails or when
  the statistics fail, and otherwise with status 200 and the text made of the four
  header lines, a line \<open>---\<close>, the statistics and the patch against the first parent.
\<close>

theorem PatchView_first_parent:
  assumes "FindRepo cfg repoName = Some r"
    and "commitID \<noteq> []"
    and "CommitObject (repo_Repository r) (NewHash L commitID) = Inr c"
  shows "(commit_ParentHashes c = [] \<longrightarrow> PatchView L cfg [repoName, commitID] = Http500 cfg)
     \<and> (commit_ParentHashes c = p # ps \<longrightarrow>
          PatchView L cfg [repoName, commitID] =
            (case CommitObject (repo_Repository r) p of
               Inl err \<Rightarrow> Http500 cfg
             | Inr parentCommit \<Rightarrow>
                 (case CommitPatch (repo_Repository r) parentCommit c of
                    Inl err \<Rightarrow> Http500 cfg
                  | Inr patch \<Rightarrow>
                      (case CommitStats (repo_Repository r) c of
                         Inl err \<Rightarrow> Http500 cfg
                       | Inr stats \<Rightarrow>
                           Text StatusOK
                             (''From '' @ commit_Hash c @ '' Mon Sep 17 00:00:00 2001'' @ [LF]
                              @ ''From: '' @ sig_Name (commit_Author c) @ '' <''
                              @ sig_Email (commit_Author c) @ ''>'' @ [LF]
                              @ ''Date: ''
                              @ time_Format L commitFormatDate (sig_When (commit_Author c)) @ [LF]
                              @ ''Subject: [PATCH] '' @ commit_Message c @ [LF]
                              @ ''---'' @ [LF] @ stats @ [LF] @ patch)))))"
  using assms
  by (auto simp: PatchView_def NumParents_def commit_Parent_def Let_def split: sum.splits)

theorem PatchView_first_parent_witness:
  "PatchView sample_lib sample_config [''myrepo'', sample_hash CHR ''a''] = Http500 sample_config
   \<and> PatchView sample_lib sample_config [''myrepo'', sample_hash CHR ''b''] =
       Text StatusOK
         (''From '' @ sample_hash CHR ''b'' @ '' Mon Sep 17 00:00:00 2001'' @ [LF]
          @ ''From: Ada <ada@example.org>'' @ [LF]
          @ ''Date: Thu, 1 Jan 1970 00:33:20 +0000'' @ [LF]
          @ ''Subject: [PATCH] add app'' @ [LF] @ [LF]
          @ ''---'' @ [LF] @ '' src/app.go | 1 +'' @ [LF]
          @ ''diff --git a/src/app.go b/src/app.go'')"
  using PatchView_first_parent
    [where cfg = sample_config and repoName = "''myrepo''"
       and r = "\<lparr>repo_Name = ''myrepo'', repo_Repository = sample_repo\<rparr>"
       and commitID = "sample_hash CHR ''a''" and L = sample_lib and c = sample_root]
    PatchView_first_parent
    [where cfg = sample_config and repoName = "''myrepo''"
       and r = "\<lparr>repo_Name = ''myrepo'', repo_Repository = sample_repo\<rparr>"
       and commitID = "sample_hash CHR ''b''" and L = sample_lib and c = sample_child
       and p = "sample_hash CHR ''a''" and ps = "[]"]
  by (simp add: sample_config_def sample_repo_def sample_lib_def sample_root_def sample_child_def
        sample_hash_def sample_sig_def)

text \<open>
  Claim C2 as stated fails: a commit with one parent hash whose parent is not in the store
  gets the 500 page.
\<close>

theorem PatchView_parent_counterexample:
  "commit_ParentHashes sample_shallow = [sample_hash CHR ''f'']
   \<and> CommitObject sample_repo (NewHash sample_lib (sample_hash CHR ''c'')) = Inr sample_shallow
   \<and> PatchView sample_lib sample_config [''myrepo'', sample_hash CHR ''c''] = Http500 sample_config"
  by (simp add: PatchView_def sample_config_def sample_repo_def sample_lib_def sample_shallow_def
        sample_hash_def NumParents_def commit_Parent_def not_found_def)

subsection \<open>Log view\<close>

declare LogView_loop.simps [simp del]

lemma strings_Split_nonempty: "strings_Split s sep \<noteq> []"
  by (induction s) (auto split: list.splits)


lemma LogView_loop_error:
  assumes "i + length cs \<le> PAGE_SIZE"
  shows "LogView_loop i (map Inr cs @ Inl (Err e) # rest) acc = Inl NilPointerDereference"
  using assms
proof (induction cs arbitrary: i acc)
  case Nil
  then show ?case
    by (subst LogView_loop.simps) (simp add: Next_def)
next
  case (Cons c cs)
  then have le: "i \<le> PAGE_SIZE" and rest: "(i + 1) + length cs \<le> PAGE_SIZE"
    by simp_all
  have "LogView_loop i (map Inr (c # cs) @ Inl (Err e) # rest) acc =
          LogView_loop (i + 1) (map Inr cs @ Inl (Err e) # rest)
            (acc @ [\<lparr>Commit_Commit = c,
                     Commit_Subject = hd (strings_Split (commit_Message c) LF),
                     Commit_ShortHash = take 8 (commit_Hash c)\<rparr>])"
    by (subst LogView_loop.simps) (simp add: le Next_def Let_def)
  then show ?case
    by (simp only: Cons.IH [OF rest])
qed






text \<open>
  Claim C10, as the code has it. When \<open>Next\<close> returns an error other than end-of-stream
  within the page, the loop goes on to read the message of the nil commit and panics.
\<close>

theorem LogView_nil_commit:
  assumes "FindRepo cfg repoName = Some r"
    and "ResolveRevision (repo_Repository r) ref = Inr revision"
    and "Log (repo_Repository r) \<lparr>log_From = revision, log_Order = LogOrderCommitterTime\<rparr>
           = Inr (map Inr cs @ Inl (Err e) # rest)"
    and "length cs < PAGE_SIZE"
  shows "LogView L cfg [repoName, ref] = Panic NilPointerDereference"
proof -
  have "1 + length cs \<le> PAGE_SIZE"
    using assms(4) by simp
  then have "LogView_loop 1 (map Inr cs @ Inl (Err e) # rest) [] = Inl NilPointerDereference"
    by (rule LogView_loop_error)
  then show ?thesis
    using assms(1-3) by (simp add: LogView_def)
qed

theorem LogView_nil_commit_witness:
  "LogView sample_lib sample_config [''myrepo'', ''graft''] = Panic NilPointerDereference"
proof -
  let ?r = "\<lparr>repo_Name = ''myrepo'', repo_Repository = sample_repo\<rparr>"
  have found: "FindRepo sample_config ''myrepo'' = Some ?r"
    by (simp add: sample_config_def)
  have resolved: "ResolveRevision (repo_Repository ?r) ''graft'' = Inr (sample_hash CHR ''c'')"
    by (simp add: sample_repo_def)
  have log: "Log (repo_Repository ?r)
               \<lparr>log_From = sample_hash CHR ''c'', log_Order = LogOrderCommitterTime\<rparr>
           = Inr (map Inr [sample_shallow] @ Inl (Err ''object not found'') # [])"
    by (simp add: sample_repo_def sample_hash_def)
  have short: "length [sample_shallow] < PAGE_SIZE"
    by (simp add: PAGE_SIZE_def)
  show ?thesis
    using LogView_nil_commit [OF found resolved log short, of sample_lib] by simp
qed

subsection \<open>Dispatcher\<close>

lemma urlParts_of_Suc: "urlParts_of (Suc i) ms = ms"
  by (induction ms arbitrary: i) simp_all

lemma urlParts_of_tl: "urlParts_of 0 ms = tl ms"
  by (cases ms) (simp_all add: urlParts_of_Suc)

lemma Dispatch_loop_first:
  assumes "\<forall>b \<in> set before. \<not> MatchString (Pattern b) s"
    and "MatchString (Pattern r) s"
  shows "Dispatch_loop (before @ r # after) s =
           Call (View r) (tl (FindStringSubmatch (Pattern r) s))"
  using assms by (induction before) (simp_all add: urlParts_of_tl)

lemma Dispatch_loop_none:
  assumes "\<forall>b \<in> set routes. \<not> MatchString (Pattern b) s"
  shows "Dispatch_loop routes s = NotFound"
  using assms by (induction routes) simp_all

text \<open>
  Claim C4. The dispatcher tries the routes in the order of the table and calls the
  handler of the first route whose pattern matches, with the captured groups in the
  order of their group index (the submatches but the whole match); when no pattern
  matches it answers not-found. The path \<open>/myrepo/tree/main/src/app.go\<close> is matched first
  by the three-segment tree pattern, not by the one- or two-segment tree patterns, and
  the tree handler is called with \<open>myrepo\<close>, \<open>main\<close>, \<open>src/app.go\<close>.
\<close>

theorem Dispatch_first_match:
  "(\<not> HasPrefix (URL_String u) ''/static/''
      \<and> (\<forall>b \<in> set before. \<not> MatchString (Pattern b) (URL_String u))
      \<and> MatchString (Pattern r) (URL_String u)
    \<longrightarrow> Dispatch (before @ r # after) u =
          Call (View r) (tl (FindStringSubmatch (Pattern r) (URL_String u))))
   \<and> (\<not> HasPrefix (URL_String u) ''/static/''
      \<and> (\<forall>b \<in> set routes. \<not> MatchString (Pattern b) (URL_String u))
    \<longrightarrow> Dispatch routes u = NotFound)
   \<and> Dispatch CompileRoutes \<lparr>url_EscapedPath = ''/myrepo/tree/main/src/app.go'', url_RawQuery = '''', url_ForceQuery = False\<rparr>
       = Call hTreeView [''myrepo'', ''main'', ''src/app.go'']
   \<and> FindStringSubmatch treeRootRefPathUrl ''/myrepo/tree/main/src/app.go''
       = [''/myrepo/tree/main/src/app.go'', ''myrepo'', ''main'', ''src/app.go'']
   \<and> \<not> MatchString treeRootUrl ''/myrepo/tree/main/src/app.go''
   \<and> \<not> MatchString treeRootRefUrl ''/myrepo/tree/main/src/app.go''
   \<and> find (\<lambda>route. MatchString (Pattern route) ''/myrepo/tree/main/src/app.go'') CompileRoutes
       = Some \<lparr>Pattern = treeRootRefPathUrl, View = hTreeView\<rparr>"
proof (intro conjI impI)
  assume "\<not> HasPrefix (URL_String u) ''/static/''
      \<and> (\<forall>b \<in> set before. \<not> MatchString (Pattern b) (URL_String u))
      \<and> MatchString (Pattern r) (URL_String u)"
  then show "Dispatch (before @ r # after) u =
          Call (View r) (tl (FindStringSubmatch (Pattern r) (URL_String u)))"
    by (simp add: Dispatch_def Dispatch_loop_first)
next
  assume "\<not> HasPrefix (URL_String u) ''/static/''
      \<and> (\<forall>b \<in> set routes. \<not> MatchString (Pattern b) (URL_String u))"
  then show "Dispatch routes u = NotFound"
    by (simp add: Dispatch_def Dispatch_loop_none)
qed (simp_all add: Dispatch_def CompileRoutes_def URL_String_def HasPrefix_def MatchString_def
        FindStringSubmatch_def indexUrl_def repoGitUrl_def repoIndexUrl_def refsUrl_def
        logDefaultUrl_def logUrl_def commitUrl_def patchUrl_def treeRootUrl_def
        treeRootRefUrl_def treeRootRefPathUrl_def label_def lit_def group_def feed_def
        close_last_def)

theorem Dispatch_first_match_witness:
  "Dispatch (butlast CompileRoutes @ last CompileRoutes # [])
       \<lparr>url_EscapedPath = ''/myrepo/tree/main/src/app.go'', url_RawQuery = '''', url_ForceQuery = False\<rparr>
     = Call hTreeView [''myrepo'', ''main'', ''src/app.go'']
   \<and> Dispatch CompileRoutes \<lparr>url_EscapedPath = ''/myrepo/issues/7'', url_RawQuery = '''', url_ForceQuery = False\<rparr> = NotFound"
  using Dispatch_first_match
      [where u = "\<lparr>url_EscapedPath = ''/myrepo/tree/main/src/app.go'', url_RawQuery = '''', url_ForceQuery = False\<rparr>"
         and before = "butlast CompileRoutes" and r = "last CompileRoutes" and after = "[]"
         and routes = "[]"]
    Dispatch_first_match
      [where u = "\<lparr>url_EscapedPath = ''/myrepo/issues/7'', url_RawQuery = '''', url_ForceQuery = False\<rparr>"
         and before = "[]" and r = "last CompileRoutes" and after = "[]"
         and routes = CompileRoutes]
  by (simp add: CompileRoutes_def URL_String_def HasPrefix_def MatchString_def
        FindStringSubmatch_def indexUrl_def repoGitUrl_def repoIndexUrl_def refsUrl_def
        logDefaultUrl_def logUrl_def commitUrl_def patchUrl_def treeRootUrl_def
        treeRootRefUrl_def treeRootRefPathUrl_def label_def lit_def group_def feed_def
        close_last_def)

lemma rmatch_avoids:
  "rmatch r at_start s cs = Some res \<Longrightarrow> avoids q r \<Longrightarrow> r \<noteq> [] \<Longrightarrow> last r = Eol
     \<Longrightarrow> q \<notin> set s"
proof (induction r at_start s cs rule: rmatch.induct)
  case (1 at_start s cs)
  then show ?case by simp
next
  case (2 r at_start s cs)
  then show ?case by (cases r) (auto simp: avoids_def split: if_splits)
next
  case (3 r at_start s cs)
  then show ?case by (auto split: if_splits)
next
  case (4 k r at_start cs)
  then show ?case by simp
next
  case (5 k r at_start c s cs)
  then show ?case by (cases r) (auto simp: avoids_def split: if_splits)
next
  case (6 k r at_start cs)
  then show ?case by simp
next
  case (7 k r at_start c s cs)
  then show ?case by (cases r) (auto simp: avoids_def split: if_splits)
next
  case (8 k r at_start cs)
  then show ?case by simp
next
  case (9 k r at_start c s cs)
  then show ?case by (cases r) (auto simp: avoids_def split: if_splits option.splits)
next
  case (10 r at_start s cs)
  then show ?case by (cases r) (auto simp: avoids_def split: if_splits)
next
  case (11 r at_start s cs)
  then show ?case by (cases r) (auto simp: avoids_def split: if_splits)
qed

lemma search_Bol_later: "search (Bol # r) False s = None"
  by (induction s) simp_all

lemma MatchString_Bol:
  "MatchString (Bol # r) s \<longleftrightarrow> rmatch (Bol # r) True s [(True, [])] \<noteq> None"
  by (cases s) (auto simp: MatchString_def search_Bol_later split: option.splits)

lemma no_match_with:
  assumes "avoids q (Bol # r)" and "last (Bol # r) = Eol" and "q \<in> set s"
  shows "\<not> MatchString (Bol # r) s"
proof
  assume "MatchString (Bol # r) s"
  then obtain res where "rmatch (Bol # r) True s [(True, [])] = Some res"
    unfolding MatchString_Bol by blast
  from rmatch_avoids [OF this assms(1) _ assms(2)] have "q \<notin> set s"
    by simp
  with assms(3) show False
    by simp
qed

lemma URL_String_query: "url_RawQuery u \<noteq> [] \<Longrightarrow> CHR ''?'' \<in> set (URL_String u)"
  by (simp add: URL_String_def)

lemma strict_patterns:
  assumes "CHR ''?'' \<in> set s"
  shows "\<not> MatchString indexUrl s" and "\<not> MatchString repoIndexUrl s"
    and "\<not> MatchString refsUrl s" and "\<not> MatchString logDefaultUrl s"
    and "\<not> MatchString logUrl s" and "\<not> MatchString commitUrl s"
    and "\<not> MatchString treeRootUrl s" and "\<not> MatchString treeRootRefUrl s"
  unfolding indexUrl_def repoIndexUrl_def refsUrl_def logDefaultUrl_def logUrl_def
    commitUrl_def treeRootUrl_def treeRootRefUrl_def
  by (rule no_match_with [OF _ _ assms]; simp add: avoids_def lit_def group_def label_def)+

text \<open>
  Claim C9, amended. The dispatcher matches the patterns against the whole URL string,
  the query string included. For a request with a query string that is not empty, the
  eight end-anchored patterns made of literals and of the label and commit classes
  (index, repository index, refs, log default, log, commit, tree root, tree ref) do not
  match. Such a request is handed to the static file server when its URL string starts
  with \<open>/static/\<close>; otherwise it goes to the git transport handler when the git pattern
  matches, else to the patch handler when the patch pattern matches (neither pattern is
  end-anchored), else to the tree handler when the three-segment tree pattern matches
  (end-anchored, its last group \<open>.*\<close> reads the query string as part of the path), and
  it is not found when none of these three matches.
\<close>

theorem Dispatch_with_query:
  assumes "url_RawQuery u \<noteq> []"
  shows "\<not> MatchString indexUrl (URL_String u) \<and> \<not> MatchString repoIndexUrl (URL_String u)
     \<and> \<not> MatchString refsUrl (URL_String u) \<and> \<not> MatchString logDefaultUrl (URL_String u)
     \<and> \<not> MatchString logUrl (URL_String u) \<and> \<not> MatchString commitUrl (URL_String u)
     \<and> \<not> MatchString treeRootUrl (URL_String u) \<and> \<not> MatchString treeRootRefUrl (URL_String u)
     \<and> Dispatch CompileRoutes u =
         (if HasPrefix (URL_String u) ''/static/'' then ServeStatic
          else if MatchString repoGitUrl (URL_String u)
            then Call hRepoGitView (tl (FindStringSubmatch repoGitUrl (URL_String u)))
          else if MatchString patchUrl (URL_String u)
            then Call hPatchView (tl (FindStringSubmatch patchUrl (URL_String u)))
          else if MatchString treeRootRefPathUrl (URL_String u)
            then Call hTreeView (tl (FindStringSubmatch treeRootRefPathUrl (URL_String u)))
          else NotFound)"
  using strict_patterns [OF URL_String_query [OF assms]]
  by (simp add: Dispatch_def CompileRoutes_def urlParts_of_tl)


theorem Dispatch_with_query_witness:
  "url_RawQuery \<lparr>url_EscapedPath = ''/myrepo/tree/main'', url_RawQuery = ''x=1'', url_ForceQuery = False\<rparr> \<noteq> []
   \<and> MatchString treeRootRefUrl ''/myrepo/tree/main''
   \<and> \<not> MatchString treeRootRefUrl
         (URL_String \<lparr>url_EscapedPath = ''/myrepo/tree/main'', url_RawQuery = ''x=1'', url_ForceQuery = False\<rparr>)
   \<and> Dispatch CompileRoutes \<lparr>url_EscapedPath = ''/myrepo/tree/main'', url_RawQuery = ''x=1'', url_ForceQuery = False\<rparr>
       = NotFound"
  using Dispatch_with_query [of "\<lparr>url_EscapedPath = ''/myrepo/tree/main'', url_RawQuery = ''x=1'', url_ForceQuery = False\<rparr>"]
  by (simp add: URL_String_def HasPrefix_def MatchString_def
        repoGitUrl_def patchUrl_def treeRootRefPathUrl_def treeRootRefUrl_def
        label_def lit_def group_def feed_def close_last_def)

text \<open>
  Claim C9 as stated fails: with the query string \<open>x=1\<close> the end-anchored three-segment
  tree pattern matches and the request is handed to the tree handler, the query string
  in its path.
\<close>

theorem Dispatch_query_counterexample:
  "url_RawQuery \<lparr>url_EscapedPath = ''/myrepo/tree/main/src/app.go'', url_RawQuery = ''x=1'', url_ForceQuery = False\<rparr> \<noteq> []
   \<and> last treeRootRefPathUrl = Eol
   \<and> MatchString treeRootRefPathUrl
        (URL_String \<lparr>url_EscapedPath = ''/myrepo/tree/main/src/app.go'', url_RawQuery = ''x=1'', url_ForceQuery = False\<rparr>)
   \<and> Dispatch CompileRoutes
        \<lparr>url_EscapedPath = ''/myrepo/tree/main/src/app.go'', url_RawQuery = ''x=1'', url_ForceQuery = False\<rparr>
       = Call hTreeView [''myrepo'', ''main'', ''src/app.go?x=1'']"
  by (simp add: Dispatch_def CompileRoutes_def URL_String_def HasPrefix_def MatchString_def
        FindStringSubmatch_def indexUrl_def repoGitUrl_def repoIndexUrl_def refsUrl_def
        logDefaultUrl_def logUrl_def commitUrl_def patchUrl_def treeRootUrl_def
        treeRootRefUrl_def treeRootRefPathUrl_def label_def lit_def group_def feed_def
        close_last_def)

end
